theory Spec2Isabelle
  imports Main
begin

section \<open>C strings, faults and the tokenizer\<close>

text \<open>
  A C string is the list of the bytes before its terminating NUL, so a \<open>string\<close> that holds
  no NUL byte. A pointer that may be \<open>NULL\<close> is an \<open>option\<close>. A raw array (the receive buffer,
  a caller's output buffer) is the list of all its bytes, NUL bytes included, and its length is
  its capacity.
\<close>

abbreviation NUL :: char where "NUL \<equiv> CHR 0x00"
abbreviation CR :: char where "CR \<equiv> CHR 0x0D"
abbreviation LF :: char where "LF \<equiv> CHR 0x0A"

text \<open>
  Where the C standard gives the program no meaning, the model returns a fault instead of a
  value: passing \<open>NULL\<close> to \<open>strdup\<close> or dereferencing it, reading a string past the end of
  its array, writing past the end of an array.
\<close>

datatype fault = Null_Pointer | Read_Past_Buffer | Write_Past_Buffer

text \<open>
  \<open>strtok\<close> of the C library, with its saved pointer passed explicitly: the argument is the
  text at the current position (the string given, or the saved pointer when the C call passes
  \<open>NULL\<close>), the result is the token and the text at the new saved pointer. Leading delimiters
  are skipped; no token is left when only delimiters remain; the token runs up to the next
  delimiter, which is overwritten by NUL and stepped over. (In C the saved pointer is one
  static variable of the library; the model follows the calls of one worker.)
\<close>

definition strtok :: "string \<Rightarrow> string \<Rightarrow> string option \<times> string" where
  "strtok s delim =
     (let s1 = dropWhile (\<lambda>c. c \<in> set delim) s in
      if s1 = [] then (None, [])
      else let tok = takeWhile (\<lambda>c. c \<notin> set delim) s1;
               rest = dropWhile (\<lambda>c. c \<notin> set delim) s1
           in (Some tok, if rest = [] then [] else tl rest))"

section \<open>The request (include/request.h, slib/request.c)\<close>

record request =
  conn_fd :: int
  http_method :: "string option"
  url :: "string option"
  http_ver :: "string option"
  header_htab :: "string \<rightharpoonup> string"

text \<open>
  \<open>_initialize_request\<close>: the two allocations may fail, which the environment decides
  (\<open>malloc_ok\<close>, \<open>htab_ok\<close>). The hash table is keyed by \<open>g_str_hash\<close>/\<open>g_str_equal\<close>, that is
  by the bytes of the key. (Isabelle names cannot begin with an underscore, so the helpers
  \<open>_initialize_request\<close>, \<open>_parse_request\<close> and \<open>_free_request\<close> carry the prefix \<open>internal\<close>.)
\<close>

definition internal_initialize_request :: "bool \<Rightarrow> bool \<Rightarrow> request option" where
  "internal_initialize_request malloc_ok htab_ok =
     (if \<not> malloc_ok then None
      else if \<not> htab_ok then None
      else Some \<lparr>conn_fd = - 1, http_method = None, url = None, http_ver = None,
                 header_htab = Map.empty\<rparr>)"

text \<open>
  \<open>strdup\<close>: its argument must be a string; \<open>NULL\<close> has no meaning there. The copy is taken
  to succeed (the code does not test its result anywhere).
\<close>

definition strdup :: "string option \<Rightarrow> fault + string" where
  "strdup p = (case p of None \<Rightarrow> Inl Null_Pointer | Some s \<Rightarrow> Inr s)"

lemma strtok_shorter:
  assumes "strtok s delim = (Some tok, s')"
  shows "length s' < length s"
proof -
  define s1 where "s1 = dropWhile (\<lambda>c. c \<in> set delim) s"
  define rest where "rest = dropWhile (\<lambda>c. c \<notin> set delim) s1"
  have eq: "strtok s delim = (if s1 = [] then (None, [])
      else (Some (takeWhile (\<lambda>c. c \<notin> set delim) s1), if rest = [] then [] else tl rest))"
    unfolding strtok_def s1_def rest_def Let_def ..
  from assms eq have ne: "s1 \<noteq> []"
    by (cases "s1 = []") simp_all
  with assms eq have s': "s' = (if rest = [] then [] else tl rest)"
    by simp
  have "length rest \<le> length s1" unfolding rest_def by (rule length_dropWhile_le)
  moreover have "length s1 \<le> length s" unfolding s1_def by (rule length_dropWhile_le)
  moreover from ne have "0 < length s1" by simp
  ultimately have "length rest \<le> length s \<and> 0 < length s"
    by linarith
  moreover have "rest \<noteq> [] \<Longrightarrow> length s' < length rest"
    using s' by (cases rest) simp_all
  moreover have "rest = [] \<Longrightarrow> length s' = 0"
    using s' by simp
  ultimately show ?thesis
    by (cases "rest = []") auto
qed

text \<open>
  The header loop of \<open>_parse_request\<close>:
  \<^verbatim>\<open>while ((header_key = strtok(NULL, ":")) != NULL && (header_val = strtok(NULL, "\r")) != NULL)\<close>
  inserting \<open>header_key + 1\<close> and \<open>header_val + 1\<close>. A token is never empty, so the pointer one
  byte further is the tail of the token. \<open>g_hash_table_insert\<close> replaces the value of a key
  that is already present.
\<close>

function parse_headers :: "string \<Rightarrow> (string \<rightharpoonup> string) \<Rightarrow> (string \<rightharpoonup> string)" where
  "parse_headers s htab =
     (case strtok s '':'' of
        (None, _) \<Rightarrow> htab
      | (Some header_key, s1) \<Rightarrow>
          (case strtok s1 [CR] of
             (None, _) \<Rightarrow> htab
           | (Some header_val, s2) \<Rightarrow>
               parse_headers s2 (htab(tl header_key \<mapsto> tl header_val))))"
  by pat_completeness auto
termination
proof (relation "measure (\<lambda>(s, htab). length s)")
  show "wf (measure (\<lambda>(s, htab). length s))" by simp
next
  fix s :: string and htab :: "string \<rightharpoonup> string" and x s1 header_key y s2 header_val
  assume "(x, s1) = strtok s '':''" "x = Some header_key"
    "(y, s2) = strtok s1 [CR]" "y = Some header_val"
  then have "length s1 < length s" "length s2 < length s1"
    using strtok_shorter [of s "'':''" header_key s1] strtok_shorter [of s1 "[CR]" header_val s2]
    by simp_all
  then show "((s2, htab(tl header_key \<mapsto> tl header_val)), (s, htab)) \<in> measure (\<lambda>(s, htab). length s)"
    by simp
qed

declare parse_headers.simps [simp del]

text \<open>
  Reading a string out of an array: \<open>strdup(req_buf)\<close> copies the bytes up to the first NUL.
  An array that holds no NUL is read past its end.
\<close>

definition c_str :: "char list \<Rightarrow> fault + string" where
  "c_str arr = (if NUL \<in> set arr then Inr (takeWhile (\<lambda>c. c \<noteq> NUL) arr) else Inl Read_Past_Buffer)"

text \<open>
  \<open>_parse_request\<close>. It returns 0 for a \<open>NULL\<close> argument and 1 otherwise; the three tokens of
  the request line go through \<open>strdup\<close> unchecked. \<open>req_buf\<close> is the array the pointer points
  to (for a string literal, its bytes and the NUL). The request is updated in place: the model
  returns the return code with the request as it is afterwards.
\<close>

definition internal_parse_request ::
  "char list option \<Rightarrow> request option \<Rightarrow> fault + (int \<times> request option)" where
  "internal_parse_request req_buf req =
     (case req_buf of
        None \<Rightarrow> Inr (0, req)
      | Some arr \<Rightarrow>
     (case req of
        None \<Rightarrow> Inr (0, None)
      | Some r \<Rightarrow>
     (case c_str arr of
        Inl f \<Rightarrow> Inl f
      | Inr req_buff \<Rightarrow>
          (let (t1, s1) = strtok req_buff '' '' in
           case strdup t1 of Inl f \<Rightarrow> Inl f | Inr m \<Rightarrow>
          (let (t2, s2) = strtok s1 '' '' in
           case strdup t2 of Inl f \<Rightarrow> Inl f | Inr u \<Rightarrow>
          (let (t3, s3) = strtok s2 [CR] in
           case strdup t3 of Inl f \<Rightarrow> Inl f | Inr v \<Rightarrow>
             Inr (1, Some (r\<lparr>http_method := Some m, url := Some u, http_ver := Some v,
                             header_htab := parse_headers s3 (header_htab r)\<rparr>))))))))"

definition parse_request ::
  "bool \<Rightarrow> bool \<Rightarrow> char list option \<Rightarrow> int \<Rightarrow> fault + request option" where
  "parse_request malloc_ok htab_ok req_buf fd =
     (case internal_initialize_request malloc_ok htab_ok of
        None \<Rightarrow> Inr None
      | Some req \<Rightarrow>
          (case internal_parse_request req_buf (Some (req\<lparr>conn_fd := fd\<rparr>)) of
             Inl f \<Rightarrow> Inl f
           | Inr (rc, req') \<Rightarrow> if rc = 0 then Inr None else Inr req'))"

text \<open>
  \<open>get_request\<close>: \<open>REQ_BUF_SIZE\<close> is 8192 unless defined otherwise before the include.
  \<open>recv\<close> either fails (a negative return) or stores the first bytes that the connection
  delivers, at most as many as the array has, and leaves the other bytes of the array as they
  were. The array is a local variable without initialiser: its bytes before the call are
  whatever the stack holds (\<open>stack\<close>, a parameter of the model: by \<open>uninitialised\<close> the
  array starts as the first bytes of \<open>stack\<close>, and as zero bytes where \<open>stack\<close> is shorter
  than the array, so the stack \<open>[]\<close> is an array of zeros). The array goes to
  \<open>parse_request\<close> as \<open>recv\<close> left it; nothing is written behind the bytes received.
\<close>

definition REQ_BUF_SIZE :: nat where
  "REQ_BUF_SIZE = 8192"

definition recv :: "char list \<Rightarrow> char list \<Rightarrow> char list" where
  "recv buf delivered = take (length buf) delivered @ drop (length delivered) buf"

definition uninitialised :: "nat \<Rightarrow> char list \<Rightarrow> char list" where
  "uninitialised n stack = take n (stack @ replicate n NUL)"

definition get_request ::
  "char list \<Rightarrow> char list option \<Rightarrow> bool \<Rightarrow> bool \<Rightarrow> int \<Rightarrow> fault + request option" where
  "get_request stack recv_ret malloc_ok htab_ok fd =
     (let req_buf = uninitialised REQ_BUF_SIZE stack in
      case recv_ret of
        None \<Rightarrow> Inr None
      | Some delivered \<Rightarrow> parse_request malloc_ok htab_ok (Some (recv req_buf delivered)) fd)"

text \<open>
  \<open>get_request_header\<close>: the result is the returned pointer (the stored value, or \<open>NULL\<close>),
  the caller's output array afterwards, and the keys that were looked up in the table.
  \<open>strcpy\<close> writes the value and its NUL at the start of the output array and has no meaning
  when the array is shorter than that.
\<close>

definition strcpy :: "char list \<Rightarrow> string \<Rightarrow> fault + char list" where
  "strcpy dest src =
     (if length src + 1 \<le> length dest then Inr (src @ NUL # drop (length src + 1) dest)
      else Inl Write_Past_Buffer)"

definition get_request_header ::
  "request option \<Rightarrow> string option \<Rightarrow> char list option
     \<Rightarrow> fault + (string option \<times> char list option \<times> string list)" where
  "get_request_header req header_key header_val =
     (case req of
        None \<Rightarrow> Inr (None, header_val, [])
      | Some r \<Rightarrow>
     (case header_key of
        None \<Rightarrow> Inr (None, header_val, [])
      | Some key \<Rightarrow>
     (case header_htab r key of
        Some stored \<Rightarrow>
          (case header_val of
             None \<Rightarrow> Inr (Some stored, None, [key])
           | Some out \<Rightarrow>
               (case strcpy out stored of
                  Inl f \<Rightarrow> Inl f
                | Inr out' \<Rightarrow> Inr (Some stored, Some out', [key])))
      | None \<Rightarrow> Inr (None, header_val, [key]))))"

section \<open>Effects\<close>

text \<open>
  What a function does to the world outside its result is the list of its effects, in order:
  closing a descriptor or a file, releasing memory, writing to the peer of a connection or to
  the console, starting a thread.
\<close>

datatype event =
    Close int
  | Fclose string
  | Free string
  | Htab_Destroy
  | Free_Request
  | Free_Arg
  | Close_Response
  | Send int string
  | Send_Error int
  | Stdout string
  | Perror string
  | Thread_Started int

text \<open>
  \<open>_free_request\<close> and \<open>close_request\<close>. The table pointer of a request is never \<open>NULL\<close>
  (\<open>_initialize_request\<close> returns no request otherwise, and only \<open>_free_request\<close> resets it),
  so the record holds the table itself and the table is always destroyed.
  \<open>g_hash_table_destroy\<close> releases every key and value through the two destroy callbacks.
  \<open>close_request\<close> reads \<open>req->conn_fd\<close> without a check of \<open>req\<close>.
\<close>

definition free_field :: "string option \<Rightarrow> event list" where
  "free_field p = (case p of None \<Rightarrow> [] | Some s \<Rightarrow> [Free s])"

definition internal_free_request :: "request option \<Rightarrow> event list" where
  "internal_free_request req =
     (case req of
        None \<Rightarrow> []
      | Some r \<Rightarrow>
          [Htab_Destroy] @ free_field (http_method r) @ free_field (url r)
            @ free_field (http_ver r) @ [Free_Request])"

definition close_request :: "request option \<Rightarrow> fault + event list" where
  "close_request req =
     (case req of
        None \<Rightarrow> Inl Null_Pointer
      | Some r \<Rightarrow>
          Inr ((if conn_fd r \<noteq> - 1 then [Close (conn_fd r)] else [])
               @ internal_free_request (Some (r\<lparr>conn_fd := - 1\<rparr>))))"

section \<open>The response (slib/response.c, not among the sources at hand)\<close>

record response =
  res_conn_fd :: int
  status_code :: "string option"
  res_headers :: "(string \<times> string) list"

text \<open>
  Modelled from the spec: \<open>create_response_from_request\<close> (slib/response.c is missing).
  It allocates a response bound to the connection handle of the request and does not take
  ownership of the request.
\<close>

definition create_response_from_request :: "request \<Rightarrow> response" where
  "create_response_from_request req =
     \<lparr>res_conn_fd = conn_fd req, status_code = None, res_headers = []\<rparr>"

text \<open>
  Modelled from the spec: \<open>set_response_header\<close> (slib/response.c is missing). The headers
  are an ordered collection of pairs, duplicates allowed, written in insertion order.
\<close>

definition set_response_header :: "response \<Rightarrow> string \<Rightarrow> string \<Rightarrow> response" where
  "set_response_header res name val = res\<lparr>res_headers := res_headers res @ [(name, val)]\<rparr>"

text \<open>
  Modelled from the spec: \<open>send_response_header\<close> (slib/response.c is missing). It writes the
  status line, each header as \<open>Name: Value\<close> with a line terminator, and a blank line; it
  reports success (1) or failure (0). Whether the transmission succeeds is decided by the
  connection (\<open>ok\<close>).
\<close>

definition header_block :: "response \<Rightarrow> string" where
  "header_block res =
     (case status_code res of None \<Rightarrow> [] | Some st \<Rightarrow> st) @ [CR, LF]
       @ concat (map (\<lambda>(name, val). name @ '': '' @ val @ [CR, LF]) (res_headers res))
       @ [CR, LF]"

definition send_response_header :: "bool \<Rightarrow> response \<Rightarrow> int \<times> event list" where
  "send_response_header ok res =
     (if ok then (1, [Send (res_conn_fd res) (header_block res)])
      else (0, [Send_Error (res_conn_fd res)]))"

text \<open>
  Modelled from the spec: \<open>send_response_file\<close> (slib/response.c is missing). It writes the
  bytes of the open file to the connection after the header block; an error aborts the
  transmission and is reported (0).
\<close>

definition send_response_file :: "bool \<Rightarrow> response \<Rightarrow> string \<Rightarrow> int \<times> event list" where
  "send_response_file ok res content =
     (if ok then (1, [Send (res_conn_fd res) content])
      else (0, [Send_Error (res_conn_fd res)]))"

text \<open>
  Modelled from the spec: \<open>close_response\<close> (slib/response.c is missing). It releases the
  response with its header block.
\<close>

definition close_response :: "response \<Rightarrow> event list" where
  "close_response res = [Close_Response]"

section \<open>The server (src/server.c)\<close>

text \<open>
  What the worker of one connection meets outside itself: the outcome of \<open>recv\<close> and the
  stack under \<open>req_buf\<close>, the outcome of the allocations, the configuration
  (\<open>get_config_str(PAGE_CONF_KEY)\<close>, \<open>get_config_str(SITE_DIR_CONF_KEY)\<close>; config.h and its
  implementation are not among the sources at hand, the two values are parameters), the files
  that \<open>fopen\<close> can open with their contents, the content types
  (\<open>get_mimetype_for_url\<close>, a parameter as well), the outcome of the two transmissions and
  the text of \<open>strerror(errno)\<close> after a failed one.
\<close>

record env =
  stack :: "char list"
  recv_ret :: "char list option"
  malloc_ok :: bool
  htab_ok :: bool
  config_page :: string
  config_site_dir :: string
  files :: "string \<rightharpoonup> string"
  mimetype :: "string \<Rightarrow> string"
  send_header_ok :: bool
  send_file_ok :: bool
  errno_text :: string

definition FILE_PATH_BUF_SIZE :: nat where
  "FILE_PATH_BUF_SIZE = 1024"

definition SERVER_NAME :: string where
  "SERVER_NAME = ''ElServe/2.0''"

text \<open>\<open>clean_request\<close>: an open file is named by its path.\<close>

definition clean_request ::
  "string option \<Rightarrow> request option \<Rightarrow> response option \<Rightarrow> fault + event list" where
  "clean_request file req res =
     (case (case req of None \<Rightarrow> Inr [] | Some r \<Rightarrow> close_request (Some r)) of
        Inl f \<Rightarrow> Inl f
      | Inr closed \<Rightarrow>
          Inr ((case file of None \<Rightarrow> [] | Some path \<Rightarrow> [Fclose path])
               @ closed
               @ (case res of None \<Rightarrow> [] | Some r \<Rightarrow> close_response r)))"

text \<open>
  \<open>handle_request\<close>. The request that \<open>get_request\<close> returns is used without a check;
  \<open>sprintf\<close> writes the two strings and a NUL into the 1024 bytes of \<open>file_path\<close>.
\<close>

definition handle_request :: "env \<Rightarrow> int \<Rightarrow> fault + event list" where
  "handle_request e fd =
     (case get_request (stack e) (recv_ret e) (malloc_ok e) (htab_ok e) fd of
        Inl f \<Rightarrow> Inl f
      | Inr None \<Rightarrow> Inl Null_Pointer
      | Inr (Some req0) \<Rightarrow>
     (case url req0 of
        None \<Rightarrow> Inl Null_Pointer
      | Some u0 \<Rightarrow>
     (let (ev1, req) = (if u0 = ''/'' then ([Free u0], req0\<lparr>url := Some (config_page e)\<rparr>)
                        else ([], req0)) in
      case (http_method req, url req, http_ver req) of
        (Some m, Some u, Some v) \<Rightarrow>
          (let ev2 = [Stdout (''> ('' @ m @ '') ('' @ u @ '') ('' @ v @ '')'' @ [LF])];
               file_path = config_site_dir e @ u
           in if FILE_PATH_BUF_SIZE < length file_path + 1 then Inl Write_Past_Buffer
              else
             (case files e file_path of
                None \<Rightarrow>
                  (case clean_request None (Some req) None of
                     Inl f \<Rightarrow> Inl f
                   | Inr ev \<Rightarrow> Inr ([Free_Arg] @ ev1 @ ev2 @ ev))
              | Some content \<Rightarrow>
                  (let res0 = create_response_from_request req;
                       res1 = res0\<lparr>status_code := Some ''200 OK''\<rparr>;
                       res2 = set_response_header res1 ''content-type'' (mimetype e u);
                       res = set_response_header res2 ''server'' SERVER_NAME;
                       (rc1, ev3) = send_response_header (send_header_ok e) res
                   in if rc1 = 0 then
                        (case clean_request (Some file_path) (Some req) (Some res) of
                           Inl f \<Rightarrow> Inl f
                         | Inr ev \<Rightarrow> Inr ([Free_Arg] @ ev1 @ ev2 @ ev3 @ ev))
                      else
                        (let (rc2, ev4) = send_response_file (send_file_ok e) res content;
                             ev5 = (if rc2 = 0
                                    then [Stdout (''Error Sending File: '' @ file_path
                                                  @ '' for URL: '' @ u @ ''. ''
                                                  @ errno_text e @ [LF])]
                                    else [])
                         in case clean_request (Some file_path) (Some req) (Some res) of
                              Inl f \<Rightarrow> Inl f
                            | Inr ev \<Rightarrow> Inr ([Free_Arg] @ ev1 @ ev2 @ ev3 @ ev4 @ ev5 @ ev)))))
      | _ \<Rightarrow> Inl Null_Pointer)))"

text \<open>
  One turn of the accept loop of \<open>main\<close>, with what \<open>accept\<close>, \<open>malloc\<close>,
  \<open>pthread_create\<close> and \<open>pthread_detach\<close> return on that turn. \<open>pthread_create\<close> returns 0
  when the thread was started and an error number, which is positive, when it was not; the
  thread runs \<open>handle_request\<close> on its own. The result of \<open>malloc\<close> is written through
  without a check. Every branch ends in \<open>continue\<close> or at the end of the loop body, so a turn
  that returns is followed by the next one.
\<close>

record turn =
  accept_ret :: int
  malloc_arg_ok :: bool
  pthread_create_ret :: int
  pthread_detach_ret :: int

definition main_loop_body :: "turn \<Rightarrow> fault + event list" where
  "main_loop_body t =
     (let fd = accept_ret t in
      if fd < 0 then Inr [Perror ''Unable to accept new connection'']
      else if \<not> malloc_arg_ok t then Inl Null_Pointer
      else if pthread_create_ret t < 0 then
        Inr [Perror ''Unable to create new thread'', Close fd, Free_Arg]
      else
        Inr ((if pthread_create_ret t = 0 then [Thread_Started fd] else [])
             @ (if pthread_detach_ret t \<noteq> 0 then [Perror ''Unable to detach new thread'']
                else [])))"

text \<open>
  The loop \<open>while(true)\<close> of \<open>main\<close> over the turns that the environment has answered so
  far. It has no \<open>break\<close> and no \<open>return\<close>: the loop is over only where the program has no
  meaning any more.
\<close>

fun main_loop :: "turn list \<Rightarrow> fault + event list" where
  "main_loop [] = Inr []"
| "main_loop (t # ts) =
     (case main_loop_body t of
        Inl f \<Rightarrow> Inl f
      | Inr ev \<Rightarrow> (case main_loop ts of Inl f \<Rightarrow> Inl f | Inr evs \<Rightarrow> Inr (ev @ evs)))"

section \<open>Inputs in the wire format\<close>

text \<open>
  The shape of a header line on the wire, \<open>Name ":" SP Value CRLF\<close>, a block of such lines,
  and the table that holds one entry per line (a later line replacing an earlier one of the
  same name). These say which inputs the theorems below are about; no function of the
  program is defined through them.
\<close>

definition header_line :: "string \<Rightarrow> string \<Rightarrow> string" where
  "header_line name val = name @ '': '' @ val @ [CR, LF]"

definition header_lines :: "(string \<times> string) list \<Rightarrow> string" where
  "header_lines kvs = concat (map (\<lambda>(name, val). header_line name val) kvs)"

definition insert_all ::
  "(string \<times> string) list \<Rightarrow> (string \<rightharpoonup> string) \<Rightarrow> (string \<rightharpoonup> string)" where
  "insert_all kvs htab = fold (\<lambda>(name, val) h. h(name \<mapsto> val)) kvs htab"

text \<open>
  An installation for the examples: the document root \<open>./site\<close>, the default page
  \<open>/index.html\<close>, every file served as \<open>text/html\<close>, a stack of zeros under the receive
  buffer, allocations and transmissions that succeed. What the connection delivers and which
  files exist are left open.
\<close>

definition site :: "char list \<Rightarrow> (string \<rightharpoonup> string) \<Rightarrow> env" where
  "site delivered fs =
     \<lparr>stack = [], recv_ret = Some delivered, malloc_ok = True, htab_ok = True,
      config_page = ''/index.html'', config_site_dir = ''./site'', files = fs,
      mimetype = (\<lambda>u. ''text/html''), send_header_ok = True, send_file_ok = True,
      errno_text = ''Success''\<rparr>"

section \<open>The tokenizer on well-formed text\<close>

lemma strtok_token:
  assumes "tok \<noteq> []" and "set tok \<inter> set delim = {}" and "d \<in> set delim"
  shows "strtok (tok @ d # rest) delim = (Some tok, rest)"
proof -
  from assms(1) obtain c cs where tok: "tok = c # cs" by (cases tok) auto
  with assms(2) have c: "c \<notin> set delim" by auto
  have all: "\<And>x. x \<in> set tok \<Longrightarrow> x \<notin> set delim" using assms(2) by auto
  have d1: "dropWhile (\<lambda>c. c \<in> set delim) (tok @ d # rest) = tok @ d # rest"
    using c by (simp add: tok)
  have t: "takeWhile (\<lambda>c. c \<notin> set delim) (tok @ d # rest) = tok"
    using all assms(3) by (simp add: takeWhile_tail)
  have d2: "dropWhile (\<lambda>c. c \<notin> set delim) (tok @ d # rest) = d # rest"
    using all assms(3) by (simp add: dropWhile_append3)
  show ?thesis
    unfolding strtok_def Let_def d1 t d2 using assms(1) by simp
qed

lemma c_str_terminated: "NUL \<notin> set s \<Longrightarrow> c_str (s @ NUL # junk) = Inr s"
  by (auto simp: c_str_def takeWhile_tail)

lemma parse_headers_line:
  assumes "CHR '':'' \<notin> set k" and "CR \<notin> set v"
  shows "parse_headers (LF # k @ '': '' @ v @ CR # rest) htab = parse_headers rest (htab(k \<mapsto> v))"
proof -
  have 1: "strtok (LF # k @ '': '' @ v @ CR # rest) '':'' = (Some (LF # k), CHR '' '' # v @ CR # rest)"
    using strtok_token [of "LF # k" "'':''" "CHR '':''" "CHR '' '' # v @ CR # rest"] assms(1)
    by simp
  have 2: "strtok (CHR '' '' # v @ CR # rest) [CR] = (Some (CHR '' '' # v), rest)"
    using strtok_token [of "CHR '' '' # v" "[CR]" CR rest] assms(2)
    by simp
  show ?thesis
    using 1 2 by (subst parse_headers.simps) simp
qed

lemma parse_headers_end: "parse_headers [LF] htab = htab"
  by (subst parse_headers.simps) (simp add: strtok_def)

lemma parse_headers_lines:
  assumes "\<forall>(k, v) \<in> set kvs. CHR '':'' \<notin> set k \<and> CR \<notin> set v"
  shows "parse_headers (LF # header_lines kvs) htab = insert_all kvs htab"
  using assms
proof (induction kvs arbitrary: htab)
  case Nil
  show ?case by (simp add: header_lines_def insert_all_def parse_headers_end)
next
  case (Cons kv kvs)
  obtain k v where kv: "kv = (k, v)" by (cases kv)
  from Cons.prems kv have ok: "CHR '':'' \<notin> set k" "CR \<notin> set v"
    and rest: "\<forall>(k, v) \<in> set kvs. CHR '':'' \<notin> set k \<and> CR \<notin> set v"
    by auto
  have "LF # header_lines (kv # kvs) = LF # k @ '': '' @ v @ CR # (LF # header_lines kvs)"
    by (simp add: header_lines_def header_line_def kv)
  then have "parse_headers (LF # header_lines (kv # kvs)) htab
      = parse_headers (LF # header_lines kvs) (htab(k \<mapsto> v))"
    using parse_headers_line [OF ok] by simp
  also have "\<dots> = insert_all kvs (htab(k \<mapsto> v))"
    using Cons.IH [OF rest] .
  finally show ?case by (simp add: insert_all_def kv)
qed

lemma header_lines_append: "header_lines (xs @ ys) = header_lines xs @ header_lines ys"
  by (simp add: header_lines_def)

lemma internal_parse_request_line:
  assumes "m \<noteq> []" "CHR '' '' \<notin> set m" "t \<noteq> []" "CHR '' '' \<notin> set t" "ver \<noteq> []" "CR \<notin> set ver"
    and "NUL \<notin> set m" "NUL \<notin> set t" "NUL \<notin> set ver" "NUL \<notin> set rest"
  shows "internal_parse_request (Some (m @ '' '' @ t @ '' '' @ ver @ CR # rest @ NUL # junk)) (Some r)
    = Inr (1, Some (r\<lparr>http_method := Some m, url := Some t, http_ver := Some ver,
                       header_htab := parse_headers rest (header_htab r)\<rparr>))"
proof -
  let ?s = "m @ '' '' @ t @ '' '' @ ver @ CR # rest"
  have "m @ '' '' @ t @ '' '' @ ver @ CR # rest @ NUL # junk = ?s @ NUL # junk" by simp
  moreover have "NUL \<notin> set ?s" using assms by simp
  ultimately have c: "c_str (m @ '' '' @ t @ '' '' @ ver @ CR # rest @ NUL # junk) = Inr ?s"
    using c_str_terminated [of ?s junk] by simp
  have 1: "strtok ?s '' '' = (Some m, t @ '' '' @ ver @ CR # rest)"
    using strtok_token [of m "'' ''" "CHR '' ''" "t @ '' '' @ ver @ CR # rest"] assms by simp
  have 2: "strtok (t @ '' '' @ ver @ CR # rest) '' '' = (Some t, ver @ CR # rest)"
    using strtok_token [of t "'' ''" "CHR '' ''" "ver @ CR # rest"] assms by simp
  have 3: "strtok (ver @ CR # rest) [CR] = (Some ver, rest)"
    using strtok_token [of ver "[CR]" CR rest] assms by simp
  show ?thesis
    using c 1 2 3 by (simp add: internal_parse_request_def strdup_def)
qed

lemma parse_request_line:
  assumes "m \<noteq> []" "CHR '' '' \<notin> set m" "t \<noteq> []" "CHR '' '' \<notin> set t" "ver \<noteq> []" "CR \<notin> set ver"
    and "NUL \<notin> set m" "NUL \<notin> set t" "NUL \<notin> set ver" "NUL \<notin> set rest"
  shows "parse_request True True (Some (m @ '' '' @ t @ '' '' @ ver @ CR # rest @ NUL # junk)) fd
    = Inr (Some \<lparr>conn_fd = fd, http_method = Some m, url = Some t, http_ver = Some ver,
                  header_htab = parse_headers rest Map.empty\<rparr>)"
  using internal_parse_request_line [OF assms]
  by (simp add: parse_request_def internal_initialize_request_def)

text \<open>
  \<open>_parse_request\<close> has no path that reports a malformed buffer: given a buffer and a
  request it returns 1, or it does not return.
\<close>

lemma internal_parse_request_rc:
  "internal_parse_request (Some arr) (Some r) = Inr (rc, req') \<Longrightarrow> rc = 1 \<and> req' \<noteq> None"
  by (auto simp: internal_parse_request_def Let_def split: sum.splits prod.splits)

lemma parse_request_no_decode_failure:
  "parse_request True True (Some arr) fd \<noteq> Inr None"
proof
  assume a: "parse_request True True (Some arr) fd = Inr None"
  let ?r = "\<lparr>conn_fd = fd, http_method = None, url = None, http_ver = None,
             header_htab = Map.empty\<rparr>"
  show False
  proof (cases "internal_parse_request (Some arr) (Some ?r)")
    case (Inl f)
    with a show False
      by (simp add: parse_request_def internal_initialize_request_def)
  next
    case (Inr p)
    obtain rc req' where p: "p = (rc, req')" by (cases p)
    from Inr p internal_parse_request_rc [of arr ?r rc req'] have "rc = 1" "req' \<noteq> None"
      by simp_all
    with a Inr p show False
      by (simp add: parse_request_def internal_initialize_request_def)
  qed
qed

lemmas decode_defs =
  parse_request_def internal_initialize_request_def internal_parse_request_def strdup_def
  parse_headers.simps strtok_def c_str_def

section \<open>The request decoder\<close>

text \<open>
  C3. A buffer of the shape \<open>"GET /x HTTP/1.1\r\nHost: a\r\n"\<close> decodes: for a method and a
  target without a space, a version without CR, a header name without a colon and a header
  value without CR (none of them empty but the last two, none with a NUL), \<open>parse_request\<close>
  returns a request with that method, target and version, bound to the connection given,
  whose header table holds the name with the value and nothing else, and
  \<open>get_request_header\<close> returns the value for the name.
\<close>

theorem C3_well_formed_request_decodes:
  assumes "m \<noteq> []" "CHR '' '' \<notin> set m" "t \<noteq> []" "CHR '' '' \<notin> set t" "ver \<noteq> []" "CR \<notin> set ver"
    and "NUL \<notin> set (m @ t @ ver @ k @ v)"
    and "CHR '':'' \<notin> set k" "CR \<notin> set v"
  shows "parse_request True True
           (Some (m @ '' '' @ t @ '' '' @ ver @ [CR, LF] @ k @ '': '' @ v @ [CR, LF] @ [NUL])) fd
         = Inr (Some \<lparr>conn_fd = fd, http_method = Some m, url = Some t, http_ver = Some ver,
                       header_htab = [k \<mapsto> v]\<rparr>)
       \<and> get_request_header
           (Some \<lparr>conn_fd = fd, http_method = Some m, url = Some t, http_ver = Some ver,
                   header_htab = [k \<mapsto> v]\<rparr>)
           (Some k) None = Inr (Some v, None, [k])"
proof -
  let ?rest = "LF # header_lines [(k, v)]"
  have nul: "NUL \<notin> set m" "NUL \<notin> set t" "NUL \<notin> set ver" "NUL \<notin> set ?rest"
    using assms(7) by (simp_all add: header_lines_def header_line_def)
  have ok: "\<forall>(k', v') \<in> set [(k, v)]. CHR '':'' \<notin> set k' \<and> CR \<notin> set v'"
    using assms(8,9) by simp
  have b: "m @ '' '' @ t @ '' '' @ ver @ [CR, LF] @ k @ '': '' @ v @ [CR, LF] @ [NUL]
            = m @ '' '' @ t @ '' '' @ ver @ CR # ?rest @ NUL # []"
    by (simp add: header_lines_def header_line_def)
  have p: "parse_headers ?rest Map.empty = [k \<mapsto> v]"
    using parse_headers_lines [OF ok, of Map.empty] by (simp add: insert_all_def)
  have r: "parse_request True True (Some (m @ '' '' @ t @ '' '' @ ver @ CR # ?rest @ NUL # [])) fd
      = Inr (Some \<lparr>conn_fd = fd, http_method = Some m, url = Some t, http_ver = Some ver,
                    header_htab = parse_headers ?rest Map.empty\<rparr>)"
    by (rule parse_request_line [OF assms(1-6) nul])
  show ?thesis
    unfolding b r p by (simp add: get_request_header_def)
qed

text \<open>The buffer \<open>"GET /x HTTP/1.1\r\nHost: a\r\n"\<close> itself, on the connection 4.\<close>

theorem C3_well_formed_request_decodes_witness:
  "parse_request True True
     (Some (''GET /x HTTP/1.1'' @ [CR, LF] @ ''Host: a'' @ [CR, LF] @ [NUL])) 4
   = Inr (Some \<lparr>conn_fd = 4, http_method = Some ''GET'', url = Some ''/x'',
                 http_ver = Some ''HTTP/1.1'', header_htab = [''Host'' \<mapsto> ''a'']\<rparr>)
   \<and> get_request_header
        (Some \<lparr>conn_fd = 4, http_method = Some ''GET'', url = Some ''/x'',
                http_ver = Some ''HTTP/1.1'', header_htab = [''Host'' \<mapsto> ''a'']\<rparr>)
        (Some ''Host'') None = Inr (Some ''a'', None, [''Host''])"
  using C3_well_formed_request_decodes
    [of "''GET''" "''/x''" "''HTTP/1.1''" "''Host''" "''a''" 4]
  by simp

text \<open>
  C8. Header lookup is an exact, case-sensitive match on the name: in the table decoded from
  a request with the line \<open>Host: a\<close>, \<open>get_request_header\<close> finds \<open>a\<close> under \<open>Host\<close>, finds
  nothing under \<open>host\<close>, and finds nothing under any name other than \<open>Host\<close>.
\<close>

theorem C8_header_lookup_case_sensitive:
  "\<exists>r. parse_request True True
         (Some (''GET /x HTTP/1.1'' @ [CR, LF] @ ''Host: a'' @ [CR, LF] @ [NUL])) fd = Inr (Some r)
     \<and> get_request_header (Some r) (Some ''Host'') None = Inr (Some ''a'', None, [''Host''])
     \<and> get_request_header (Some r) (Some ''host'') None = Inr (None, None, [''host''])
     \<and> (\<forall>key. get_request_header (Some r) (Some key) None
              = Inr (if key = ''Host'' then Some ''a'' else None, None, [key]))"
  by (simp add: decode_defs get_request_header_def)

text \<open>
  C1. A request line with only two tokens. For the buffer \<open>"GET /x\r\n"\<close> the third
  \<open>strtok\<close> finds no token and its \<open>NULL\<close> goes to \<open>strdup\<close>: \<open>parse_request\<close> does not
  return. For
  \<open>"GET /x\r\nHost: a\r\n"\<close> the tokenizer runs over the end of the line and
  \<open>parse_request\<close> returns a request, with the target \<open>"/x\r\nHost:"\<close> and the version \<open>a\<close>.
  For no buffer does \<open>parse_request\<close> report a decoding failure.
\<close>

theorem C1_two_token_request_line:
  "parse_request True True (Some (''GET /x'' @ [CR, LF] @ [NUL])) fd = Inl Null_Pointer
   \<and> parse_request True True (Some (''GET /x'' @ [CR, LF] @ ''Host: a'' @ [CR, LF] @ [NUL])) fd
       = Inr (Some \<lparr>conn_fd = fd, http_method = Some ''GET'',
                     url = Some (''/x'' @ [CR, LF] @ ''Host:''), http_ver = Some ''a'',
                     header_htab = Map.empty\<rparr>)
   \<and> parse_request True True (Some arr) fd \<noteq> Inr None"
  using parse_request_no_decode_failure [of arr fd] by (simp add: decode_defs)

text \<open>
  C4 as stated fails: in \<open>"GET /x HTTP/1.1\r\nBad\r\nHost: a\r\nAccept: b\r\n"\<close> the line
  \<open>Bad\<close> has no colon, yet parsing goes on and the header \<open>Accept\<close>, two lines further, is in
  the table.
\<close>

theorem C4_header_after_malformed_line_is_stored:
  "parse_request True True
     (Some (''GET /x HTTP/1.1'' @ [CR, LF] @ ''Bad'' @ [CR, LF] @ ''Host: a'' @ [CR, LF]
            @ ''Accept: b'' @ [CR, LF] @ [NUL])) 4
   = Inr (Some \<lparr>conn_fd = 4, http_method = Some ''GET'', url = Some ''/x'',
                 http_ver = Some ''HTTP/1.1'',
                 header_htab = [''Bad'' @ [CR, LF] @ ''Host'' \<mapsto> ''a'', ''Accept'' \<mapsto> ''b'']\<rparr>)
   \<and> get_request_header
        (Some \<lparr>conn_fd = 4, http_method = Some ''GET'', url = Some ''/x'',
                http_ver = Some ''HTTP/1.1'',
                header_htab = [''Bad'' @ [CR, LF] @ ''Host'' \<mapsto> ''a'', ''Accept'' \<mapsto> ''b'']\<rparr>)
        (Some ''Accept'') None = Inr (Some ''b'', None, [''Accept''])"
  by (simp add: decode_defs get_request_header_def)

text \<open>
  C4, amended. A header line that does not split is not where parsing stops, and no error is
  signalled: the tokenizer does not know lines. After a well-formed request line and any
  number of well-formed header lines \<open>pre\<close>, each stored under its own name,
  \<^item> a line \<open>bad\<close> without a colon, followed by well-formed header lines: the name token runs
    on to the colon of the next line, so one entry is stored whose name is \<open>bad\<close>, the line
    terminator and the next line's name, with the next line's value;
  \<^item> a line \<open>k0: v0\<close> that ends in a bare LF, followed by well-formed header lines: the value
    token runs on to the CR of the next line, so \<open>k0\<close> is stored with the value \<open>v0\<close>, the LF
    and the whole next line.
  In both cases the next line is not stored as an entry of its own, and every well-formed
  header line after it is stored under its own name: the table is the one that the lines
  before, the merged entry and the lines after give, inserted in this order.
\<close>

theorem C4_malformed_header_line_is_merged:
  assumes "m \<noteq> []" "CHR '' '' \<notin> set m" "t \<noteq> []" "CHR '' '' \<notin> set t" "ver \<noteq> []" "CR \<notin> set ver"
    and "NUL \<notin> set (m @ t @ ver @ header_lines pre @ bad @ k0 @ v0 @ k @ v @ header_lines kvs)"
    and "\<forall>(k', v') \<in> set pre. CHR '':'' \<notin> set k' \<and> CR \<notin> set v'"
    and "CHR '':'' \<notin> set bad" "CR \<notin> set bad"
    and "CHR '':'' \<notin> set k0" "CR \<notin> set v0"
    and "CHR '':'' \<notin> set k" "CR \<notin> set k" "CR \<notin> set v"
    and "\<forall>(k', v') \<in> set kvs. CHR '':'' \<notin> set k' \<and> CR \<notin> set v'"
  shows "parse_request True True
           (Some (m @ '' '' @ t @ '' '' @ ver @ [CR, LF] @ header_lines pre
                  @ bad @ [CR, LF] @ header_line k v @ header_lines kvs @ [NUL])) fd
         = Inr (Some \<lparr>conn_fd = fd, http_method = Some m, url = Some t, http_ver = Some ver,
                       header_htab = insert_all (pre @ (bad @ [CR, LF] @ k, v) # kvs) Map.empty\<rparr>)
       \<and> parse_request True True
           (Some (m @ '' '' @ t @ '' '' @ ver @ [CR, LF] @ header_lines pre
                  @ k0 @ '': '' @ v0 @ [LF] @ header_line k v @ header_lines kvs @ [NUL])) fd
         = Inr (Some \<lparr>conn_fd = fd, http_method = Some m, url = Some t, http_ver = Some ver,
                       header_htab = insert_all (pre @ (k0, v0 @ [LF] @ k @ '': '' @ v) # kvs)
                                       Map.empty\<rparr>)"
proof -
  let ?k1 = "bad @ [CR, LF] @ k"
  let ?v2 = "v0 @ [LF] @ k @ '': '' @ v"
  let ?l1 = "pre @ (?k1, v) # kvs"
  let ?l2 = "pre @ (k0, ?v2) # kvs"
  let ?rest1 = "LF # header_lines ?l1"
  let ?rest2 = "LF # header_lines ?l2"
  have h1: "header_lines ?l1
      = header_lines pre @ bad @ [CR, LF] @ header_line k v @ header_lines kvs"
    by (simp add: header_lines_append) (simp add: header_lines_def header_line_def)
  have h2: "header_lines ?l2
      = header_lines pre @ k0 @ '': '' @ v0 @ [LF] @ header_line k v @ header_lines kvs"
    by (simp add: header_lines_append) (simp add: header_lines_def header_line_def)
  have nul: "NUL \<notin> set m" "NUL \<notin> set t" "NUL \<notin> set ver" "NUL \<notin> set ?rest1" "NUL \<notin> set ?rest2"
    using assms(7) unfolding h1 h2 by (simp_all add: header_line_def)
  have ok1: "\<forall>(k', v') \<in> set ?l1. CHR '':'' \<notin> set k' \<and> CR \<notin> set v'"
    using assms(8-16) by auto
  have ok2: "\<forall>(k', v') \<in> set ?l2. CHR '':'' \<notin> set k' \<and> CR \<notin> set v'"
    using assms(8-16) by auto
  have b1: "m @ '' '' @ t @ '' '' @ ver @ [CR, LF] @ header_lines pre
              @ bad @ [CR, LF] @ header_line k v @ header_lines kvs @ [NUL]
            = m @ '' '' @ t @ '' '' @ ver @ CR # ?rest1 @ NUL # []"
    unfolding h1 by simp
  have b2: "m @ '' '' @ t @ '' '' @ ver @ [CR, LF] @ header_lines pre
              @ k0 @ '': '' @ v0 @ [LF] @ header_line k v @ header_lines kvs @ [NUL]
            = m @ '' '' @ t @ '' '' @ ver @ CR # ?rest2 @ NUL # []"
    unfolding h2 by simp
  have p1: "parse_headers ?rest1 Map.empty = insert_all ?l1 Map.empty"
    by (rule parse_headers_lines [OF ok1])
  have p2: "parse_headers ?rest2 Map.empty = insert_all ?l2 Map.empty"
    by (rule parse_headers_lines [OF ok2])
  have r1: "parse_request True True (Some (m @ '' '' @ t @ '' '' @ ver @ CR # ?rest1 @ NUL # [])) fd
      = Inr (Some \<lparr>conn_fd = fd, http_method = Some m, url = Some t, http_ver = Some ver,
                    header_htab = parse_headers ?rest1 Map.empty\<rparr>)"
    by (rule parse_request_line [OF assms(1-6) nul(1-4)])
  have r2: "parse_request True True (Some (m @ '' '' @ t @ '' '' @ ver @ CR # ?rest2 @ NUL # [])) fd
      = Inr (Some \<lparr>conn_fd = fd, http_method = Some m, url = Some t, http_ver = Some ver,
                    header_htab = parse_headers ?rest2 Map.empty\<rparr>)"
    by (rule parse_request_line [OF assms(1-6) nul(1-3) nul(5)])
  show ?thesis
    unfolding b1 b2 r1 r2 p1 p2 by simp
qed

text \<open>
  The two cases with \<open>Host: a\<close> before the malformed line and \<open>Accept: b\<close>, \<open>Via: p\<close> after
  it, on the connection 4.
\<close>

theorem C4_malformed_header_line_is_merged_witness:
  "parse_request True True
     (Some (''GET /x HTTP/1.1'' @ [CR, LF] @ ''Host: a'' @ [CR, LF] @ ''Bad'' @ [CR, LF]
            @ ''Accept: b'' @ [CR, LF] @ ''Via: p'' @ [CR, LF] @ [NUL])) 4
   = Inr (Some \<lparr>conn_fd = 4, http_method = Some ''GET'', url = Some ''/x'',
                 http_ver = Some ''HTTP/1.1'',
                 header_htab = [''Host'' \<mapsto> ''a'', ''Bad'' @ [CR, LF] @ ''Accept'' \<mapsto> ''b'',
                                ''Via'' \<mapsto> ''p'']\<rparr>)
   \<and> parse_request True True
     (Some (''GET /x HTTP/1.1'' @ [CR, LF] @ ''Host: a'' @ [CR, LF] @ ''Age: 0'' @ [LF]
            @ ''Accept: b'' @ [CR, LF] @ ''Via: p'' @ [CR, LF] @ [NUL])) 4
   = Inr (Some \<lparr>conn_fd = 4, http_method = Some ''GET'', url = Some ''/x'',
                 http_ver = Some ''HTTP/1.1'',
                 header_htab = [''Host'' \<mapsto> ''a'', ''Age'' \<mapsto> ''0'' @ [LF] @ ''Accept: b'',
                                ''Via'' \<mapsto> ''p'']\<rparr>)"
  using C4_malformed_header_line_is_merged
    [where m = "''GET''" and t = "''/x''" and ver = "''HTTP/1.1''" and pre = "[(''Host'', ''a'')]"
       and bad = "''Bad''" and ?k0.0 = "''Age''" and ?v0.0 = "''0''" and k = "''Accept''"
       and v = "''b''" and kvs = "[(''Via'', ''p'')]" and fd = 4]
  by (simp add: header_lines_def header_line_def insert_all_def)

text \<open>
  C10 as stated fails: for a stored value \<open>a\<close> and an output array of one byte, \<open>strcpy\<close>
  writes two bytes.
\<close>

theorem C10_small_output_buffer_is_overrun:
  "get_request_header
     (Some \<lparr>conn_fd = 4, http_method = Some ''GET'', url = Some ''/x'',
             http_ver = Some ''HTTP/1.1'', header_htab = [''Host'' \<mapsto> ''a'']\<rparr>)
     (Some ''Host'') (Some [CHR ''z'']) = Inl Write_Past_Buffer"
  by (simp add: get_request_header_def strcpy_def)

text \<open>
  C10, amended. \<open>get_request_header\<close> returns \<open>NULL\<close> for a \<open>NULL\<close> request as for a \<open>NULL\<close>
  name, looks nothing up in the table and leaves the output array as it is. When the name is
  found and the output array given has room for the value and its NUL, the array starts with
  the value and the NUL afterwards, the bytes behind them are unchanged, and the stored value
  is returned.
\<close>

theorem C10_get_request_header:
  "get_request_header None key out = Inr (None, out, [])
   \<and> get_request_header req None out = Inr (None, out, [])
   \<and> (header_htab r name = Some stored \<and> length stored < length buf \<longrightarrow>
        get_request_header (Some r) (Some name) (Some buf)
          = Inr (Some stored, Some (stored @ NUL # drop (length stored + 1) buf), [name]))"
  by (simp add: get_request_header_def strcpy_def split: option.splits)

theorem C10_get_request_header_witness:
  "get_request_header None (Some ''Host'') (Some ''zzzz'') = Inr (None, Some ''zzzz'', [])
   \<and> get_request_header
        (Some \<lparr>conn_fd = 4, http_method = Some ''GET'', url = Some ''/x'',
                http_ver = Some ''HTTP/1.1'', header_htab = [''Host'' \<mapsto> ''a'']\<rparr>)
        None (Some ''zzzz'') = Inr (None, Some ''zzzz'', [])
   \<and> get_request_header
        (Some \<lparr>conn_fd = 4, http_method = Some ''GET'', url = Some ''/x'',
                http_ver = Some ''HTTP/1.1'', header_htab = [''Host'' \<mapsto> ''a'']\<rparr>)
        (Some ''Host'') (Some ''zzzz'') = Inr (Some ''a'', Some [CHR ''a'', NUL, CHR ''z'', CHR ''z''], [''Host''])"
  using C10_get_request_header
    [of "Some ''Host''" "Some ''zzzz''"
        "Some \<lparr>conn_fd = 4, http_method = Some ''GET'', url = Some ''/x'',
                http_ver = Some ''HTTP/1.1'', header_htab = [''Host'' \<mapsto> ''a'']\<rparr>"
        "\<lparr>conn_fd = 4, http_method = Some ''GET'', url = Some ''/x'',
                http_ver = Some ''HTTP/1.1'', header_htab = [''Host'' \<mapsto> ''a'']\<rparr>"
        "''Host''" "''a''" "''zzzz''"]
  by simp

section \<open>Receiving the request\<close>

lemma length_uninitialised: "length (uninitialised n st) = n"
  by (simp add: uninitialised_def)

lemma uninitialised_zeros: "uninitialised n [] = replicate n NUL"
  by (simp add: uninitialised_def)

lemma recv_truncates:
  assumes "length buf \<le> length delivered"
  shows "recv buf delivered = take (length buf) delivered"
  using assms by (simp add: recv_def)

lemma recv_length: "length (recv buf delivered) = length buf"
  by (simp add: recv_def)

lemma get_request_overlong:
  assumes "REQ_BUF_SIZE \<le> length delivered" and "NUL \<notin> set (take REQ_BUF_SIZE delivered)"
  shows "get_request st (Some delivered) True True fd = Inl Read_Past_Buffer"
proof -
  have "recv (uninitialised REQ_BUF_SIZE st) delivered = take REQ_BUF_SIZE delivered"
    using recv_truncates [of "uninitialised REQ_BUF_SIZE st" delivered] assms(1)
    by (simp add: length_uninitialised)
  then have "c_str (recv (uninitialised REQ_BUF_SIZE st) delivered) = Inl Read_Past_Buffer"
    using assms(2) by (simp add: c_str_def)
  then show ?thesis
    by (simp add: get_request_def parse_request_def internal_initialize_request_def
        internal_parse_request_def)
qed

lemma get_request_short:
  assumes "length delivered < REQ_BUF_SIZE"
  shows "get_request [] (Some delivered) mo ho fd
    = parse_request mo ho
        (Some (delivered @ NUL # replicate (REQ_BUF_SIZE - length delivered - 1) NUL)) fd"
proof -
  from assms obtain n where n: "REQ_BUF_SIZE - length delivered = Suc n"
    by (cases "REQ_BUF_SIZE - length delivered") simp_all
  then have "drop (length delivered) (replicate REQ_BUF_SIZE NUL) = NUL # replicate n NUL"
    by simp
  then have "recv (uninitialised REQ_BUF_SIZE []) delivered = delivered @ NUL # replicate n NUL"
    using assms by (simp add: recv_def uninitialised_zeros)
  moreover from n have "REQ_BUF_SIZE - length delivered - 1 = n" by simp
  ultimately show ?thesis
    by (simp add: get_request_def)
qed

text \<open>
  The array is not terminated after \<open>recv\<close>: where the stack held no zero byte, a request of
  any length that holds none either is read past the end of the array.
\<close>

lemma get_request_unterminated:
  assumes "NUL \<notin> set delivered" and "NUL \<notin> set st" and "REQ_BUF_SIZE \<le> length st"
  shows "get_request st (Some delivered) True True fd = Inl Read_Past_Buffer"
proof -
  let ?buf = "uninitialised REQ_BUF_SIZE st"
  have "?buf = take REQ_BUF_SIZE st"
    using assms(3) by (simp add: uninitialised_def)
  then have "NUL \<notin> set ?buf"
    using assms(2) set_take_subset [of REQ_BUF_SIZE st] by auto
  moreover have "set (recv ?buf delivered) \<subseteq> set delivered \<union> set ?buf"
    using set_take_subset [of "length ?buf" delivered] set_drop_subset [of "length delivered" ?buf]
    by (auto simp: recv_def)
  ultimately have "NUL \<notin> set (recv ?buf delivered)"
    using assms(1) by auto
  then have "c_str (recv ?buf delivered) = Inl Read_Past_Buffer"
    by (simp add: c_str_def)
  then show ?thesis
    by (simp add: get_request_def parse_request_def internal_initialize_request_def
        internal_parse_request_def)
qed

text \<open>
  C5. A request of more than \<open>REQ_BUF_SIZE\<close> bytes: the array holds its first
  \<open>REQ_BUF_SIZE\<close> bytes after \<open>recv\<close>, whatever the stack held before, so it holds no NUL,
  and \<open>strdup(req_buf)\<close> in \<open>_parse_request\<close> reads past the end of the array.
\<close>

theorem C5_overlong_request_is_read_past_the_buffer:
  "recv (uninitialised REQ_BUF_SIZE st)
        (''GET /x HTTP/1.1'' @ [CR, LF] @ ''Cookie: '' @ replicate 8192 (CHR ''a'') @ [CR, LF])
     = take REQ_BUF_SIZE
        (''GET /x HTTP/1.1'' @ [CR, LF] @ ''Cookie: '' @ replicate 8192 (CHR ''a'') @ [CR, LF])
   \<and> get_request st
        (Some (''GET /x HTTP/1.1'' @ [CR, LF] @ ''Cookie: '' @ replicate 8192 (CHR ''a'') @ [CR, LF]))
        True True fd
     = Inl Read_Past_Buffer"
proof -
  let ?d = "''GET /x HTTP/1.1'' @ [CR, LF] @ ''Cookie: '' @ replicate 8192 (CHR ''a'') @ [CR, LF]"
  have len: "REQ_BUF_SIZE \<le> length ?d" by (simp add: REQ_BUF_SIZE_def)
  have "NUL \<notin> set ?d" by simp
  then have nul: "NUL \<notin> set (take REQ_BUF_SIZE ?d)"
    using set_take_subset [of REQ_BUF_SIZE ?d] by blast
  have "recv (uninitialised REQ_BUF_SIZE st) ?d = take REQ_BUF_SIZE ?d"
    using recv_truncates [of "uninitialised REQ_BUF_SIZE st" ?d] len
    by (simp only: length_uninitialised)
  moreover have "get_request st (Some ?d) True True fd = Inl Read_Past_Buffer"
    by (rule get_request_overlong [OF len nul])
  ultimately show ?thesis by blast
qed

section \<open>The worker of a connection\<close>

lemma handle_request_no_request:
  "get_request (stack e) (recv_ret e) (malloc_ok e) (htab_ok e) fd = Inr None
    \<Longrightarrow> handle_request e fd = Inl Null_Pointer"
  by (simp add: handle_request_def)

lemma handle_request_fault:
  "get_request (stack e) (recv_ret e) (malloc_ok e) (htab_ok e) fd = Inl f
    \<Longrightarrow> handle_request e fd = Inl f"
  by (simp add: handle_request_def)

lemma get_request_recv_failure: "get_request st None mo ho fd = Inr None"
  by (simp add: get_request_def)

lemmas worker_defs =
  handle_request_def FILE_PATH_BUF_SIZE_def SERVER_NAME_def clean_request_def
  close_request_def internal_free_request_def free_field_def create_response_from_request_def
  set_response_header_def send_response_header_def send_response_file_def close_response_def
  header_block_def

text \<open>
  A request that \<open>get_request\<close> returns is bound to the connection and has its three
  strings. On every path on which \<open>handle_request\<close> returns, \<open>clean_request\<close> has run
  once: the connection is closed once, the request and its table are released once, and
  the response is released once exactly when the file was opened.
\<close>

lemma internal_parse_request_fields:
  assumes "internal_parse_request (Some arr) (Some r0) = Inr (rc, Some r)"
  shows "conn_fd r = conn_fd r0 \<and> http_method r \<noteq> None \<and> url r \<noteq> None \<and> http_ver r \<noteq> None"
  using assms
  by (auto simp: internal_parse_request_def Let_def split: sum.splits prod.splits)

lemma get_request_fields:
  assumes "get_request st rr mo ho fd = Inr (Some r)"
  shows "conn_fd r = fd \<and> http_method r \<noteq> None \<and> url r \<noteq> None \<and> http_ver r \<noteq> None"
proof -
  from assms obtain d where rr: "rr = Some d"
    by (cases rr) (simp_all add: get_request_def)
  let ?arr = "recv (uninitialised REQ_BUF_SIZE st) d"
  from assms rr have p: "parse_request mo ho (Some ?arr) fd = Inr (Some r)"
    by (simp add: get_request_def)
  then obtain r0 where r0: "internal_initialize_request mo ho = Some r0"
    by (cases "internal_initialize_request mo ho") (simp_all add: parse_request_def)
  from p r0 obtain rc where "internal_parse_request (Some ?arr) (Some (r0\<lparr>conn_fd := fd\<rparr>)) = Inr (rc, Some r)"
    by (auto simp: parse_request_def split: sum.splits prod.splits if_splits)
  from internal_parse_request_fields [OF this] show ?thesis by simp
qed

lemma clean_request_events:
  "clean_request file (Some r) res
     = Inr ((case file of None \<Rightarrow> [] | Some path \<Rightarrow> [Fclose path])
            @ (if conn_fd r \<noteq> - 1 then [Close (conn_fd r)] else [])
            @ [Htab_Destroy] @ free_field (http_method r) @ free_field (url r)
            @ free_field (http_ver r) @ [Free_Request]
            @ (case res of None \<Rightarrow> [] | Some x \<Rightarrow> [Close_Response]))"
  by (cases res) (simp_all add: clean_request_def close_request_def internal_free_request_def close_response_def)

lemma handle_request_releases_once:
  assumes "handle_request e fd = Inr evs"
  shows "count_list evs (Close fd) = (if fd = - 1 then 0 else 1)
     \<and> count_list evs Free_Request = 1 \<and> count_list evs Htab_Destroy = 1
     \<and> count_list evs Close_Response = (if \<exists>p. Fclose p \<in> set evs then 1 else 0)"
proof -
  from assms obtain r where g: "get_request (stack e) (recv_ret e) (malloc_ok e) (htab_ok e) fd = Inr (Some r)"
    by (auto simp: handle_request_def split: sum.splits option.splits)
  from get_request_fields [OF g] obtain m u v where
    f: "conn_fd r = fd" "http_method r = Some m" "url r = Some u" "http_ver r = Some v"
    by auto
  show ?thesis
    using assms g f
    by (auto simp: handle_request_def clean_request_events free_field_def Let_def
        send_response_header_def send_response_file_def
        split: if_splits option.splits prod.splits)
qed

text \<open>
  Whatever the worker sends, it sends after opening the file that the target resolves to, and
  it closes that file afterwards. With no file to open, a worker that returns has closed
  the connection once and has sent nothing.
\<close>

lemma handle_request_sends_only_opened_file:
  assumes "handle_request e fd = Inr evs" and "Send fd' b \<in> set evs"
  shows "\<exists>u content. files e (config_site_dir e @ u) = Some content
           \<and> Fclose (config_site_dir e @ u) \<in> set evs"
proof -
  from assms(1) obtain r where g: "get_request (stack e) (recv_ret e) (malloc_ok e) (htab_ok e) fd = Inr (Some r)"
    by (auto simp: handle_request_def split: sum.splits option.splits)
  from get_request_fields [OF g] obtain m u v where
    f: "conn_fd r = fd" "http_method r = Some m" "url r = Some u" "http_ver r = Some v"
    by auto
  show ?thesis
    using assms g f
    by (auto simp: handle_request_def clean_request_events free_field_def Let_def
        send_response_header_def send_response_file_def
        split: if_splits option.splits prod.splits)
qed

lemma handle_request_unopenable_closes_silently:
  assumes "handle_request e fd = Inr evs" and "files e = Map.empty" and "fd \<noteq> - 1"
  shows "count_list evs (Close fd) = 1 \<and> (\<forall>fd' b. Send fd' b \<notin> set evs)"
  using handle_request_releases_once [OF assms(1)] handle_request_sends_only_opened_file [OF assms(1)]
    assms(2,3)
  by auto

lemma get_request_root:
  "get_request [] (Some (''GET / HTTP/1.1'' @ [CR, LF, CR, LF])) True True fd
     = Inr (Some \<lparr>conn_fd = fd, http_method = Some ''GET'', url = Some ''/'',
                   http_ver = Some ''HTTP/1.1'', header_htab = Map.empty\<rparr>)"
  by (subst get_request_short) (simp_all add: REQ_BUF_SIZE_def decode_defs)

lemma get_request_long_target:
  "get_request [] (Some (''GET /'' @ replicate 1100 (CHR ''a'') @ '' HTTP/1.1'' @ [CR, LF, CR, LF]))
       True True fd
     = Inr (Some \<lparr>conn_fd = fd, http_method = Some ''GET'',
                   url = Some (CHR ''/'' # replicate 1100 (CHR ''a'')),
                   http_ver = Some ''HTTP/1.1'', header_htab = Map.empty\<rparr>)"
proof -
  let ?d = "''GET /'' @ replicate 1100 (CHR ''a'') @ '' HTTP/1.1'' @ [CR, LF, CR, LF]"
  let ?junk = "replicate (REQ_BUF_SIZE - length ?d - 1) NUL"
  have "get_request [] (Some ?d) True True fd = parse_request True True (Some (?d @ NUL # ?junk)) fd"
    by (rule get_request_short) (simp add: REQ_BUF_SIZE_def)
  also have "?d @ NUL # ?junk
      = ''GET'' @ '' '' @ (CHR ''/'' # replicate 1100 (CHR ''a'')) @ '' '' @ ''HTTP/1.1'' @ CR # [LF, CR, LF] @ NUL # ?junk"
    by simp
  also have "parse_request True True (Some \<dots>) fd
      = Inr (Some \<lparr>conn_fd = fd, http_method = Some ''GET'',
                   url = Some (CHR ''/'' # replicate 1100 (CHR ''a'')),
                   http_ver = Some ''HTTP/1.1'', header_htab = parse_headers [LF, CR, LF] Map.empty\<rparr>)"
    by (rule parse_request_line) simp_all
  also have "parse_headers [LF, CR, LF] Map.empty = Map.empty"
    by (subst parse_headers.simps) (simp add: strtok_def)
  finally show ?thesis .
qed

text \<open>
  C2. When \<open>recv\<close> fails, \<open>get_request\<close> returns \<open>NULL\<close> and \<open>handle_request\<close> reads
  \<open>req->url\<close> through it: the worker does not reach \<open>clean_request\<close>. When the request line
  has two tokens only, \<open>_parse_request\<close> hands \<open>NULL\<close> to \<open>strdup\<close> and the worker does not
  get further either.
\<close>

theorem C2_failed_receive_or_decode_reaches_no_cleanup:
  "handle_request (e\<lparr>recv_ret := None\<rparr>) fd = Inl Null_Pointer
   \<and> handle_request (e\<lparr>stack := [], recv_ret := Some (''GET /x'' @ [CR, LF]), malloc_ok := True,
                        htab_ok := True\<rparr>) fd = Inl Null_Pointer"
proof -
  have 1: "handle_request (e\<lparr>recv_ret := None\<rparr>) fd = Inl Null_Pointer"
    by (rule handle_request_no_request) (simp add: get_request_recv_failure)
  have "get_request [] (Some (''GET /x'' @ [CR, LF])) True True fd = Inl Null_Pointer"
    by (subst get_request_short) (simp_all add: REQ_BUF_SIZE_def decode_defs)
  then have 2: "handle_request (e\<lparr>stack := [], recv_ret := Some (''GET /x'' @ [CR, LF]), malloc_ok := True,
                        htab_ok := True\<rparr>) fd = Inl Null_Pointer"
    by (intro handle_request_fault) simp
  from 1 2 show ?thesis by blast
qed

text \<open>
  C6. When \<open>recv\<close> fails there is no request that owns the connection, cleanup with nothing
  constructed would do nothing, and the worker does not return from \<open>handle_request\<close>:
  no list of effects is its result, so the descriptor of the connection is not closed.
\<close>

theorem C6_failed_receive_leaves_connection_open:
  "get_request st None mo ho fd = Inr None
   \<and> clean_request None None None = Inr []
   \<and> (\<forall>evs. handle_request (e\<lparr>recv_ret := None\<rparr>) fd \<noteq> Inr evs)"
proof -
  have "handle_request (e\<lparr>recv_ret := None\<rparr>) fd = Inl Null_Pointer"
    by (rule handle_request_no_request) (simp add: get_request_recv_failure)
  then show ?thesis
    by (simp add: get_request_recv_failure clean_request_def)
qed

text \<open>
  C7. In the installation \<open>site\<close>: a request for \<open>/\<close> is resolved as \<open>./site/index.html\<close>; when
  that file cannot be opened the connection is closed and nothing is sent, when it can be
  opened the header block and the file are sent. A request whose target has 1101 bytes
  names a path that does not fit into the 1024 bytes of \<open>file_path\<close>: \<open>sprintf\<close> writes past
  the array before \<open>fopen\<close> is reached.
\<close>

theorem C7_long_target_overruns_file_path:
  "handle_request (site (''GET / HTTP/1.1'' @ [CR, LF, CR, LF]) Map.empty) 4
     = Inr [Free_Arg, Free ''/'', Stdout (''> (GET) (/index.html) (HTTP/1.1)'' @ [LF]),
            Close 4, Htab_Destroy, Free ''GET'', Free ''/index.html'', Free ''HTTP/1.1'',
            Free_Request]
   \<and> handle_request (site (''GET / HTTP/1.1'' @ [CR, LF, CR, LF])
                          [''./site/index.html'' \<mapsto> ''<html></html>'']) 4
     = Inr [Free_Arg, Free ''/'', Stdout (''> (GET) (/index.html) (HTTP/1.1)'' @ [LF]),
            Send 4 (''200 OK'' @ [CR, LF] @ ''content-type: text/html'' @ [CR, LF]
                    @ ''server: ElServe/2.0'' @ [CR, LF] @ [CR, LF]),
            Send 4 ''<html></html>'',
            Fclose ''./site/index.html'',
            Close 4, Htab_Destroy, Free ''GET'', Free ''/index.html'', Free ''HTTP/1.1'',
            Free_Request, Close_Response]
   \<and> handle_request
        (site (''GET /'' @ replicate 1100 (CHR ''a'') @ '' HTTP/1.1'' @ [CR, LF, CR, LF]) Map.empty) 4
     = Inl Write_Past_Buffer"
proof -
  have a: "handle_request (site (''GET / HTTP/1.1'' @ [CR, LF, CR, LF]) Map.empty) 4
     = Inr [Free_Arg, Free ''/'', Stdout (''> (GET) (/index.html) (HTTP/1.1)'' @ [LF]),
            Close 4, Htab_Destroy, Free ''GET'', Free ''/index.html'', Free ''HTTP/1.1'',
            Free_Request]"
    using get_request_root [of 4] by (simp add: site_def worker_defs)
  have b: "handle_request (site (''GET / HTTP/1.1'' @ [CR, LF, CR, LF])
                          [''./site/index.html'' \<mapsto> ''<html></html>'']) 4
     = Inr [Free_Arg, Free ''/'', Stdout (''> (GET) (/index.html) (HTTP/1.1)'' @ [LF]),
            Send 4 (''200 OK'' @ [CR, LF] @ ''content-type: text/html'' @ [CR, LF]
                    @ ''server: ElServe/2.0'' @ [CR, LF] @ [CR, LF]),
            Send 4 ''<html></html>'',
            Fclose ''./site/index.html'',
            Close 4, Htab_Destroy, Free ''GET'', Free ''/index.html'', Free ''HTTP/1.1'',
            Free_Request, Close_Response]"
    using get_request_root [of 4] by (simp add: site_def worker_defs)
  have c: "handle_request
        (site (''GET /'' @ replicate 1100 (CHR ''a'') @ '' HTTP/1.1'' @ [CR, LF, CR, LF]) Map.empty) 4
     = Inl Write_Past_Buffer"
    using get_request_long_target [of 4] by (simp add: site_def worker_defs)
  from a b c show ?thesis by blast
qed

section \<open>The accept loop\<close>

text \<open>
  When \<open>pthread_create\<close> keeps to its interface (0 or a positive error number), no turn of
  the loop closes a connection or reports that a thread could not be created. The loop goes on
  after every turn in which \<open>accept\<close> fails or the argument of the worker is allocated.
\<close>

lemma main_loop_body_posix_never_closes:
  assumes "0 \<le> pthread_create_ret t" and "main_loop_body t = Inr evs"
  shows "Close fd \<notin> set evs \<and> Perror ''Unable to create new thread'' \<notin> set evs"
  using assms by (auto simp: main_loop_body_def Let_def split: if_splits)

lemma main_loop_body_returns:
  "malloc_arg_ok t \<or> accept_ret t < 0 \<Longrightarrow> \<exists>evs. main_loop_body t = Inr evs"
  by (auto simp: main_loop_body_def Let_def)

lemma main_loop_goes_on:
  assumes "\<forall>t \<in> set ts. malloc_arg_ok t \<or> accept_ret t < 0"
  shows "\<exists>evs. main_loop ts = Inr evs"
  using assms
proof (induction ts)
  case Nil
  show ?case by simp
next
  case (Cons t ts)
  from Cons.prems obtain ev where "main_loop_body t = Inr ev"
    using main_loop_body_returns [of t] by auto
  moreover from Cons obtain evs where "main_loop ts = Inr evs" by auto
  ultimately show ?case by simp
qed

text \<open>
  C9. A failed \<open>accept\<close> is logged and the loop goes on. A failed \<open>pthread_create\<close> returns
  a positive error number (here 11, \<open>EAGAIN\<close>), which the test \<open>< 0\<close> does not catch: the
  connection (descriptor 5) is not closed and the failure is not logged; the only message,
  if any, is that of \<open>pthread_detach\<close>.
\<close>

theorem C9_failed_thread_start_is_not_handled:
  "main_loop_body \<lparr>accept_ret = 5, malloc_arg_ok = True, pthread_create_ret = 11,
                 pthread_detach_ret = 0\<rparr> = Inr []
   \<and> main_loop_body \<lparr>accept_ret = 5, malloc_arg_ok = True, pthread_create_ret = 11,
                 pthread_detach_ret = 3\<rparr> = Inr [Perror ''Unable to detach new thread'']
   \<and> main_loop_body \<lparr>accept_ret = - 1, malloc_arg_ok = m, pthread_create_ret = c,
                 pthread_detach_ret = d\<rparr> = Inr [Perror ''Unable to accept new connection'']"
  by (simp add: main_loop_body_def)

end
